theory Spec2Isabelle
  imports Main "HOL-Library.Word"
begin

unbundle bit_operations_syntax

section \<open>Machine types and the outside world\<close>

text \<open>
  The driver runs on an RP2040: \<open>uint8_t\<close> is an 8-bit word and \<open>int\<close> a 32-bit
  two's-complement word. C computes every \<open>uint8_t\<close> operand in \<open>int\<close> (integer
  promotion, a zero extension) and cuts the result back to 8 bits where it is stored in a
  \<open>uint8_t\<close> or passed as one; both conversions are written out in the model.
\<close>

type_synonym uint8_t = "8 word"
type_synonym c_int = "32 word"

definition promote :: "uint8_t \<Rightarrow> c_int" where
  "promote b = ucast b"

definition to_uint8 :: "c_int \<Rightarrow> uint8_t" where
  "to_uint8 i = ucast i"

text \<open>
  The Pico SDK calls \<open>i2c_write_blocking\<close> and \<open>sleep_ms\<close> are the driver's only
  effects. Each call is recorded, with its arguments, at the end of a log: the bus address,
  the byte the source pointer points at, the length and the \<open>nostop\<close> flag of a write,
  the milliseconds of a sleep. The value \<open>i2c_write_blocking\<close> returns is never read by
  the driver.
\<close>

datatype event =
    I2cWrite uint8_t uint8_t nat bool
  | SleepMs nat

record Lcd =
  peripheralAddr :: c_int

record world =
  lcd :: Lcd
  bus :: "event list"

definition i2c_write_blocking :: "uint8_t \<Rightarrow> uint8_t \<Rightarrow> nat \<Rightarrow> bool \<Rightarrow> world \<Rightarrow> world" where
  "i2c_write_blocking a b n nostop w = w\<lparr>bus := bus w @ [I2cWrite a b n nostop]\<rparr>"

definition sleep_ms :: "nat \<Rightarrow> world \<Rightarrow> world" where
  "sleep_ms ms w = w\<lparr>bus := bus w @ [SleepMs ms]\<rparr>"

section \<open>The driver\<close>

definition sendByte :: "uint8_t \<Rightarrow> world \<Rightarrow> world" where
  "sendByte val w =
    (let backlight = 0x08 :: uint8_t;
         enable = 0x04 :: uint8_t;
         noStop = True;
         oneByte = 1 :: nat;
         val_enabled = to_uint8 ((promote val OR promote backlight) OR promote enable);
         w1 = i2c_write_blocking (to_uint8 (peripheralAddr (lcd w))) val_enabled oneByte noStop w;
         val_disabled = to_uint8 ((promote val AND NOT (promote enable)) OR promote backlight)
     in i2c_write_blocking (to_uint8 (peripheralAddr (lcd w1))) val_disabled oneByte noStop w1)"

definition sendCommand :: "uint8_t \<Rightarrow> world \<Rightarrow> world" where
  "sendCommand val w =
    (let cmdRegister = 0x00 :: uint8_t;
         high = to_uint8 ((promote val AND 0xF0) OR promote cmdRegister);
         low = to_uint8 ((push_bit 4 (promote val) AND 0xF0) OR promote cmdRegister)
     in sleep_ms 2 (sendByte low (sendByte high w)))"

definition sendData :: "uint8_t \<Rightarrow> world \<Rightarrow> world" where
  "sendData val w =
    (let dataRegister = 0x01 :: uint8_t;
         high = to_uint8 ((promote val AND 0xF0) OR promote dataRegister);
         w1 = sendByte high w;
         low = to_uint8 ((push_bit 4 (promote val) AND 0xF0) OR promote dataRegister)
     in sendByte low w1)"

text \<open>
  \<open>print\<close> walks the bytes at \<open>s\<close> until it reads a zero byte. The argument is the
  memory from \<open>s\<close> on; running off its end without having met a zero byte is a read
  outside the object, which C leaves undefined: \<open>None\<close>.
\<close>

fun print :: "uint8_t list \<Rightarrow> world \<Rightarrow> world option" where
  "print [] w = None"
| "print (c # s) w = (if c \<noteq> 0 then print s (sendData c w) else Some w)"

text \<open>
  In \<open>setCursor\<close> the row base is promoted, the column added to it in \<open>int\<close>, and
  the sum converted to the \<open>uint8_t\<close> parameter of \<open>sendCommand\<close>. The sum is the
  machine's 32-bit addition, which wraps (for a column within 192 of \<open>INT_MAX\<close> C
  leaves the signed sum undefined). The \<open>switch\<close> has the
  cases 0 and 1 and no default.
\<close>

definition setCursor :: "c_int \<Rightarrow> c_int \<Rightarrow> world \<Rightarrow> world" where
  "setCursor row column w =
    (let ROW_1 = 0x08 :: uint8_t;
         ROW_2 = 0xC0 :: uint8_t
     in if row = 0 then sendCommand (to_uint8 (promote ROW_1 + column)) w
        else if row = 1 then sendCommand (to_uint8 (promote ROW_2 + column)) w
        else w)"

definition clear :: "world \<Rightarrow> world" where
  "clear w = (let CLEAR_DISPLAY = 0x01 :: c_int in sendCommand (to_uint8 CLEAR_DISPLAY) w)"

definition init :: "world \<Rightarrow> world" where
  "init w0 =
    (let w1 = sleep_ms 15 w0;
         returnHomeInst = 0x02 :: uint8_t;
         functionSetInst = 0x20 :: uint8_t;
         fourBitDL = 0x00 :: uint8_t;
         eightBitDL = 0x10 :: uint8_t;
         twoLineDisplay = 0x08 :: uint8_t;
         oneLineDisplay = 0x00 :: uint8_t;
         fiveByTenDots = 0x04 :: uint8_t;
         fiveByEightDots = 0x00 :: uint8_t;
         displayInst = 0x08 :: uint8_t;
         displayOn = 0x04 :: uint8_t;
         displayOff = 0x00 :: uint8_t;
         cursorOn = 0x02 :: uint8_t;
         cursorOff = 0x00 :: uint8_t;
         blinkOn = 0x01 :: uint8_t;
         blinkOff = 0x00 :: uint8_t;
         entryModeInst = 0x04 :: uint8_t;
         directionIncrement = 0x02 :: uint8_t;
         directionDecrement = 0x00 :: uint8_t;
         displayShiftOn = 0x01 :: uint8_t;
         displayShiftOff = 0x00 :: uint8_t;
         clearDisplayInst = 0x01 :: uint8_t;
         w2 = sendCommand returnHomeInst w1;
         w3 = sendCommand (to_uint8 (((promote functionSetInst OR promote fourBitDL)
                OR promote twoLineDisplay) OR promote fiveByEightDots)) w2;
         w4 = sendCommand (to_uint8 (((promote displayInst OR promote displayOn)
                OR promote cursorOff) OR promote blinkOff)) w3;
         w5 = sendCommand (to_uint8 ((promote entryModeInst OR promote directionIncrement)
                OR promote displayShiftOff)) w4
     in sendCommand clearDisplayInst w5)"

text \<open>
  The constructor stores its argument in the one field of the object
  (\<open>this->peripheralAddr = addr\<close>). A world whose driver holds the address \<open>a\<close> and
  whose log is empty is where the examples start.
\<close>

definition lcd_at :: "uint8_t \<Rightarrow> world" where
  "lcd_at a = \<lparr>lcd = \<lparr>peripheralAddr = promote a\<rparr>, bus = []\<rparr>"

section \<open>Reading the bus\<close>

text \<open>
  The bits of a byte on the bus, as the constants of the driver place them: the four data
  lines are bits 7 to 4, the backlight is bit 3 (\<open>0x08\<close>), enable is bit 2 (\<open>0x04\<close>)
  and register select is bit 0 (\<open>0x01\<close> selects the data register, \<open>0x00\<close> the
  command register).
\<close>

definition high_nibble :: "uint8_t \<Rightarrow> uint8_t" where
  "high_nibble b = b AND 0xF0"

definition rs_bit :: "uint8_t \<Rightarrow> bool" where
  "rs_bit b = bit b 0"

definition enable_bit :: "uint8_t \<Rightarrow> bool" where
  "enable_bit b = bit b 2"

definition backlight_bit :: "uint8_t \<Rightarrow> bool" where
  "backlight_bit b = bit b 3"

text \<open>The bus address every write of a driver goes to.\<close>

abbreviation address :: "world \<Rightarrow> uint8_t" where
  "address w \<equiv> to_uint8 (peripheralAddr (lcd w))"

text \<open>
  Decoding, in the words of the specification: a nibble frame is taken where enable falls
  (a write with enable set followed by one with enable cleared); two frames make a byte,
  the high nibble of the first as bits 7 to 4 and the high nibble of the second as bits 3
  to 0, sent to the register the first frame selects.
\<close>

fun bus_bytes :: "event list \<Rightarrow> uint8_t list" where
  "bus_bytes [] = []"
| "bus_bytes (I2cWrite a b n s # es) = b # bus_bytes es"
| "bus_bytes (SleepMs ms # es) = bus_bytes es"

fun latched :: "bool \<Rightarrow> uint8_t list \<Rightarrow> uint8_t list" where
  "latched e [] = []"
| "latched e (b # bs) =
    (if e \<and> \<not> enable_bit b then b # latched False bs else latched (enable_bit b) bs)"

definition recombine :: "uint8_t \<Rightarrow> uint8_t \<Rightarrow> uint8_t" where
  "recombine first second = high_nibble first OR drop_bit 4 (high_nibble second)"

fun paired :: "uint8_t list \<Rightarrow> (bool \<times> uint8_t) list" where
  "paired (f1 # f2 # fs) = (rs_bit f1, recombine f1 f2) # paired fs"
| "paired fs = []"

definition received :: "event list \<Rightarrow> (bool \<times> uint8_t) list" where
  "received es = paired (latched False (bus_bytes es))"

section \<open>Shapes of the log\<close>

text \<open>
  Names for the pieces of log the lemmas below speak about: the two writes by which
  \<open>sendByte\<close> presents one byte \<open>f\<close> at address \<open>a\<close>, the events of one
  \<open>sendCommand\<close> and of one \<open>sendData\<close>, and the bytes a string literal occupies
  (its characters, then a zero byte).
\<close>

definition frame_writes :: "uint8_t \<Rightarrow> uint8_t \<Rightarrow> event list" where
  "frame_writes a f =
     [I2cWrite a (f OR 0x08 OR 0x04) 1 True, I2cWrite a ((f AND NOT 0x04) OR 0x08) 1 True]"

definition command_events :: "uint8_t \<Rightarrow> uint8_t \<Rightarrow> event list" where
  "command_events a v =
     frame_writes a (v AND 0xF0) @ frame_writes a (push_bit 4 v AND 0xF0) @ [SleepMs 2]"

definition data_events :: "uint8_t \<Rightarrow> uint8_t \<Rightarrow> event list" where
  "data_events a v =
     frame_writes a ((v AND 0xF0) OR 0x01) @ frame_writes a ((push_bit 4 v AND 0xF0) OR 0x01)"

definition string_literal :: "string \<Rightarrow> uint8_t list" where
  "string_literal s = map of_char s @ [0]"

section \<open>Integer promotion and conversion\<close>

lemma to_uint8_or3:
  "to_uint8 ((promote x OR promote y) OR promote z) = x OR y OR z"
  unfolding to_uint8_def promote_def
  by (rule bit_word_eqI) (auto simp add: bit_simps)

lemma to_uint8_or4:
  "to_uint8 (((promote x OR promote y) OR promote z) OR promote u) = x OR y OR z OR u"
  unfolding to_uint8_def promote_def
  by (rule bit_word_eqI) (auto simp add: bit_simps)

lemma to_uint8_and_not:
  "to_uint8 ((promote x AND NOT (promote e)) OR promote b) = (x AND NOT e) OR b"
  unfolding to_uint8_def promote_def
  by (rule bit_word_eqI) (auto simp add: bit_simps)

lemma to_uint8_high:
  "to_uint8 ((promote x AND 0xF0) OR promote r) = (x AND 0xF0) OR r"
  unfolding to_uint8_def promote_def
  by (rule bit_word_eqI) (auto simp add: bit_simps)

lemma to_uint8_low:
  "to_uint8 ((push_bit 4 (promote x) AND 0xF0) OR promote r) = (push_bit 4 x AND 0xF0) OR r"
  unfolding to_uint8_def promote_def
  by (rule bit_word_eqI) (auto simp add: bit_simps)

lemma promote_0: "promote 0 = 0"
  by (simp add: promote_def)

lemma to_uint8_high0: "to_uint8 (promote x AND 0xF0) = x AND 0xF0"
  using to_uint8_high [of x 0] by (simp add: promote_0)

lemma to_uint8_low0: "to_uint8 (push_bit 4 (promote x) AND 0xF0) = push_bit 4 x AND 0xF0"
  using to_uint8_low [of x 0] by (simp add: promote_0)

lemma to_uint8_numeral: "to_uint8 (numeral n) = numeral n"
  unfolding to_uint8_def by (rule ucast_down_no) (simp add: is_down)

lemma to_uint8_0x100: "to_uint8 0x100 = 0x00"
  unfolding to_uint8_def by simp

lemma promote_ROW_1: "promote 0x08 = 0x08"
  unfolding promote_def by simp

lemma promote_ROW_2: "promote 0xC0 = 0xC0"
  unfolding promote_def by simp

lemma mod_256_of_sum:
  "((x mod 256 + c) mod 4294967296) mod 256 = (x + c mod 4294967296) mod (256::int)"
proof -
  have d: "(256::int) dvd 4294967296" by simp
  have "((x mod 256 + c) mod 4294967296) mod 256 = (x mod 256 + c) mod 256"
    by (rule mod_mod_cancel [OF d])
  also have "\<dots> = (x + c) mod 256" by (simp add: mod_simps)
  also have "\<dots> = (x + (c mod 4294967296) mod 256) mod 256"
    by (simp add: mod_mod_cancel [OF d] mod_simps)
  also have "\<dots> = (x + c mod 4294967296) mod 256" by (simp add: mod_simps)
  finally show ?thesis .
qed

lemma to_uint8_add: "to_uint8 (promote x + c) = x + to_uint8 c"
  unfolding to_uint8_def promote_def
  by transfer (simp add: take_bit_eq_mod mod_256_of_sum)

text \<open>
  Where the sum of row base and column fits a byte nothing is lost in the conversion. On
  \<open>c_int\<close> the order \<open>\<le>\<close> is the unsigned one, so \<open>c \<le> 247\<close> says that the
  column, as an \<open>int\<close>, lies between 0 and 247.
\<close>

lemma row0_sum_in_range: "c \<le> 247 \<Longrightarrow> unat (to_uint8 (0x08 + c)) = 8 + unat c"
  unfolding to_uint8_def
  by (simp add: unsigned_ucast_eq take_bit_eq_mod unat_word_ariths word_le_nat_alt)

lemma row1_sum_in_range: "c \<le> 63 \<Longrightarrow> unat (to_uint8 (0xC0 + c)) = 192 + unat c"
  unfolding to_uint8_def
  by (simp add: unsigned_ucast_eq take_bit_eq_mod unat_word_ariths word_le_nat_alt)

lemma row1_sum_bit7:
  assumes "c < 64"
  shows "bit (to_uint8 (0xC0 + c)) 7"
proof -
  from assms have k: "unat c < 64" by (simp add: word_less_nat_alt)
  then have "unat (to_uint8 (0xC0 + c)) = 192 + unat c"
    unfolding to_uint8_def
    by (simp add: unsigned_ucast_eq take_bit_eq_mod unat_word_ariths)
  moreover have "(192 + unat c) div 128 = 1"
    using k by arith
  ultimately have "bit (unat (to_uint8 (0xC0 + c))) 7"
    by (simp add: bit_iff_odd)
  then show ?thesis by (simp add: bit_unsigned_iff)
qed

section \<open>Bits of the bytes written\<close>

lemma bit_index_cases: "(n::nat) < 8 \<Longrightarrow> n \<in> {0, 1, 2, 3, 4, 5, 6, 7}"
  by auto

lemma high_nibble_asserted: "high_nibble (f OR 0x08 OR 0x04) = high_nibble f"
  by (simp add: high_nibble_def bit.conj_disj_distrib2)

lemma high_nibble_deasserted: "high_nibble ((f AND NOT 0x04) OR 0x08) = high_nibble f"
  by (simp add: high_nibble_def bit.conj_disj_distrib2 and.assoc)

lemma high_nibble_masked: "high_nibble (v AND 0xF0) = high_nibble v"
  by (simp add: high_nibble_def and.assoc)

lemma high_nibble_masked_data: "high_nibble ((v AND 0xF0) OR 0x01) = high_nibble v"
  by (simp add: high_nibble_def bit.conj_disj_distrib2 and.assoc)

lemma high_nibble_shifted: "high_nibble (push_bit 4 v AND 0xF0) = high_nibble (push_bit 4 v)"
  by (simp add: high_nibble_def and.assoc)

lemma enable_asserted: "enable_bit (f OR 0x08 OR 0x04)"
  by (simp add: enable_bit_def bit_simps)

lemma enable_deasserted: "\<not> enable_bit ((f AND NOT 0x04) OR 0x08)"
  by (simp add: enable_bit_def bit_simps)

lemma backlight_asserted: "backlight_bit (f OR 0x08 OR 0x04)"
  by (simp add: backlight_bit_def bit_simps)

lemma backlight_deasserted: "backlight_bit ((f AND NOT 0x04) OR 0x08)"
  by (simp add: backlight_bit_def bit_simps)

lemma rs_asserted: "rs_bit (f OR 0x08 OR 0x04) = rs_bit f"
  by (simp add: rs_bit_def bit_simps)

lemma rs_deasserted: "rs_bit ((f AND NOT 0x04) OR 0x08) = rs_bit f"
  by (simp add: rs_bit_def bit_simps)

lemma rs_command: "\<not> rs_bit (v AND 0xF0)"
  by (simp add: rs_bit_def bit_simps)

lemma rs_data: "rs_bit (f OR 0x01)"
  by (simp add: rs_bit_def bit_simps)

lemma recombine_nibbles: "recombine (v AND 0xF0) (push_bit 4 v AND 0xF0) = v"
  unfolding recombine_def high_nibble_def
  apply (rule bit_word_eqI)
  apply (simp add: bit_simps)
  apply (drule bit_index_cases)
  apply (elim insertE emptyE; simp add: bit_simps)
  done

lemma recombine_high_nibbles: "recombine (high_nibble a) (high_nibble b) = recombine a b"
  by (simp add: recombine_def high_nibble_def and.assoc)

lemma recombine_latched:
  "recombine ((h AND NOT 0x04) OR 0x08) ((l AND NOT 0x04) OR 0x08) = recombine h l"
  using recombine_high_nibbles [of "(h AND NOT 0x04) OR 0x08" "(l AND NOT 0x04) OR 0x08"]
  by (simp only: high_nibble_deasserted recombine_high_nibbles)

lemma recombine_nibbles_data:
  "recombine ((v AND 0xF0) OR 0x01) ((push_bit 4 v AND 0xF0) OR 0x01) = v"
proof -
  have "recombine ((v AND 0xF0) OR 0x01) ((push_bit 4 v AND 0xF0) OR 0x01)
      = recombine (high_nibble v) (high_nibble (push_bit 4 v))"
    using recombine_high_nibbles [of "(v AND 0xF0) OR 0x01" "(push_bit 4 v AND 0xF0) OR 0x01"]
    by (simp only: high_nibble_masked_data)
  also have "\<dots> = recombine (v AND 0xF0) (push_bit 4 v AND 0xF0)"
    by (simp only: high_nibble_def)
  finally show ?thesis by (simp only: recombine_nibbles)
qed

section \<open>What each operation puts on the bus\<close>

lemma bus_sendByte: "bus (sendByte v w) = bus w @ frame_writes (address w) v"
  by (simp add: sendByte_def i2c_write_blocking_def Let_def frame_writes_def
      to_uint8_or3 to_uint8_and_not)

lemma lcd_sendByte: "lcd (sendByte v w) = lcd w"
  by (simp add: sendByte_def i2c_write_blocking_def Let_def)

lemma bus_sendCommand: "bus (sendCommand v w) = bus w @ command_events (address w) v"
  by (simp add: sendCommand_def sleep_ms_def Let_def bus_sendByte lcd_sendByte
      to_uint8_high0 to_uint8_low0 promote_0 command_events_def)

lemma lcd_sendCommand: "lcd (sendCommand v w) = lcd w"
  by (simp add: sendCommand_def sleep_ms_def Let_def lcd_sendByte)

lemma bus_sendData: "bus (sendData v w) = bus w @ data_events (address w) v"
  by (simp add: sendData_def Let_def bus_sendByte lcd_sendByte to_uint8_high to_uint8_low
      data_events_def)

lemma lcd_sendData: "lcd (sendData v w) = lcd w"
  by (simp add: sendData_def Let_def lcd_sendByte)


lemma lcd_sleep_ms: "lcd (sleep_ms n w) = lcd w"
  by (simp add: sleep_ms_def)

lemma bus_sleep_ms: "bus (sleep_ms n w) = bus w @ [SleepMs n]"
  by (simp add: sleep_ms_def)

lemma init_commands:
  "init w = sendCommand 0x01 (sendCommand 0x06 (sendCommand 0x0C (sendCommand 0x28
     (sendCommand 0x02 (sleep_ms 15 w)))))"
  by (simp add: init_def Let_def to_uint8_or3 to_uint8_or4)

lemma bus_init:
  "bus (init w) = bus w @ SleepMs 15 #
     concat (map (command_events (address w)) [0x02, 0x28, 0x0C, 0x06, 0x01])"
  by (simp add: init_commands bus_sendCommand lcd_sendCommand lcd_sleep_ms bus_sleep_ms)

lemma lcd_init: "lcd (init w) = lcd w"
  by (simp add: init_commands lcd_sendCommand lcd_sleep_ms)

lemma setCursor_row0: "setCursor 0 c w = sendCommand (to_uint8 (0x08 + c)) w"
  by (simp add: setCursor_def Let_def promote_ROW_1)

lemma setCursor_row1: "setCursor 1 c w = sendCommand (to_uint8 (0xC0 + c)) w"
  by (simp add: setCursor_def Let_def promote_ROW_2)

lemma setCursor_other: "r \<noteq> 0 \<Longrightarrow> r \<noteq> 1 \<Longrightarrow> setCursor r c w = w"
  by (simp add: setCursor_def Let_def)

lemma clear_command: "clear w = sendCommand 0x01 w"
  by (simp add: clear_def Let_def to_uint8_def)

text \<open>
  The loop of \<open>print\<close> stops at the first zero byte and has then called \<open>sendData\<close>
  on every byte before it, first to last; on memory without a zero byte it runs off the
  end.
\<close>

lemma print_terminated:
  "0 \<notin> set s \<Longrightarrow> print (s @ 0 # rest) w = Some (fold sendData s w)"
  by (induction s arbitrary: w) simp_all

lemma print_unterminated: "0 \<notin> set s \<Longrightarrow> print s w = None"
  by (induction s arbitrary: w) simp_all

lemma lcd_fold_sendData: "lcd (fold sendData s w) = lcd w"
  by (induction s arbitrary: w) (simp_all add: lcd_sendData)

lemma bus_fold_sendData:
  "bus (fold sendData s w) = bus w @ concat (map (data_events (address w)) s)"
  by (induction s arbitrary: w) (simp_all add: bus_sendData lcd_sendData)

lemma length_data_events: "length (concat (map (data_events a) s)) = 4 * length s"
  by (induction s) (simp_all add: data_events_def frame_writes_def)

section \<open>Decoding what was put on the bus\<close>

lemma latched_pulse:
  "enable_bit b1 \<Longrightarrow> \<not> enable_bit b2 \<Longrightarrow> latched e (b1 # b2 # bs) = b2 # latched False bs"
  by simp

lemma latched_frame_writes:
  "latched e (bus_bytes (frame_writes a f @ es))
     = ((f AND NOT 0x04) OR 0x08) # latched False (bus_bytes es)"
  unfolding frame_writes_def
  by (simp only: append_Cons append_Nil bus_bytes.simps
      latched_pulse [OF enable_asserted enable_deasserted])

lemma received_Nil: "received [] = []"
  by (simp add: received_def)

lemma received_command: "received (command_events a v @ es) = (False, v) # received es"
  unfolding received_def command_events_def
  by (simp only: append_assoc latched_frame_writes paired.simps rs_deasserted rs_command
      recombine_latched recombine_nibbles append_Cons append_Nil bus_bytes.simps)

lemma received_data: "received (data_events a v @ es) = (True, v) # received es"
  unfolding received_def data_events_def
  by (simp only: append_assoc latched_frame_writes paired.simps rs_deasserted rs_data
      recombine_latched recombine_nibbles_data)

lemma received_one_command: "received (command_events a v) = [(False, v)]"
  using received_command [of a v "[]"] by (simp add: received_Nil)

lemma received_commands:
  "received (concat (map (command_events a) vs)) = map (Pair False) vs"
  by (induction vs) (simp_all add: received_Nil received_command)

lemma received_datas:
  "received (concat (map (data_events a) vs)) = map (Pair True) vs"
  by (induction vs) (simp_all add: received_Nil received_data)

section \<open>Frame transport\<close>

text \<open>
  C3. \<open>sendByte\<close>, for every byte, makes exactly two bus writes: enable is set in the
  first byte and cleared in the second, the backlight bit is set in both, the four data
  bits and the register-select bit of the argument are kept in both, and both writes carry
  the no-stop flag that holds the bus open.
\<close>

theorem sendByte_enable_pulse:
  "\<exists>b1 b2. bus (sendByte v w) =
        bus w @ [I2cWrite (address w) b1 1 True, I2cWrite (address w) b2 1 True]
     \<and> enable_bit b1 \<and> \<not> enable_bit b2
     \<and> backlight_bit b1 \<and> backlight_bit b2
     \<and> high_nibble b1 = high_nibble v \<and> high_nibble b2 = high_nibble v
     \<and> rs_bit b1 = rs_bit v \<and> rs_bit b2 = rs_bit v"
proof (intro exI conjI)
  show "bus (sendByte v w) = bus w @
      [I2cWrite (address w) (v OR 0x08 OR 0x04) 1 True,
       I2cWrite (address w) ((v AND NOT 0x04) OR 0x08) 1 True]"
    by (simp add: bus_sendByte frame_writes_def)
qed (rule enable_asserted enable_deasserted backlight_asserted backlight_deasserted
      high_nibble_asserted high_nibble_deasserted rs_asserted rs_deasserted)+

section \<open>Commands and data\<close>

text \<open>
  C1. \<open>sendCommand v\<close>, for every byte \<open>v\<close>, writes exactly two frames, each an enable
  pulse of two bus writes: first the frame whose high nibble is the high nibble of \<open>v\<close>,
  then the frame whose high nibble is the high nibble of \<open>v << 4\<close>; register select is
  cleared in both; a sleep of 2 ms follows the second frame.
\<close>

theorem sendCommand_frames:
  "\<exists>h1 h2 l1 l2. bus (sendCommand v w) =
        bus w @ [I2cWrite (address w) h1 1 True, I2cWrite (address w) h2 1 True,
                 I2cWrite (address w) l1 1 True, I2cWrite (address w) l2 1 True,
                 SleepMs 2]
     \<and> enable_bit h1 \<and> \<not> enable_bit h2 \<and> enable_bit l1 \<and> \<not> enable_bit l2
     \<and> high_nibble h1 = high_nibble v \<and> high_nibble h2 = high_nibble v
     \<and> high_nibble l1 = high_nibble (push_bit 4 v)
     \<and> high_nibble l2 = high_nibble (push_bit 4 v)
     \<and> \<not> rs_bit h1 \<and> \<not> rs_bit h2 \<and> \<not> rs_bit l1 \<and> \<not> rs_bit l2"
proof (intro exI conjI)
  let ?h = "v AND 0xF0" and ?l = "push_bit 4 v AND 0xF0"
  show "bus (sendCommand v w) = bus w @
      [I2cWrite (address w) (?h OR 0x08 OR 0x04) 1 True,
       I2cWrite (address w) ((?h AND NOT 0x04) OR 0x08) 1 True,
       I2cWrite (address w) (?l OR 0x08 OR 0x04) 1 True,
       I2cWrite (address w) ((?l AND NOT 0x04) OR 0x08) 1 True,
       SleepMs 2]"
    by (simp add: bus_sendCommand command_events_def frame_writes_def)
qed (simp_all only: enable_asserted enable_deasserted high_nibble_asserted
      high_nibble_deasserted high_nibble_masked high_nibble_shifted rs_asserted
      rs_deasserted rs_command not_False_eq_True)

text \<open>
  C2. \<open>sendData v\<close>, for every byte \<open>v\<close>, writes exactly two frames split as
  \<open>sendCommand\<close> splits them, high nibble then low nibble, with register select set in
  both, and nothing after them: no sleep follows.
\<close>

theorem sendData_frames:
  "\<exists>h1 h2 l1 l2. bus (sendData v w) =
        bus w @ [I2cWrite (address w) h1 1 True, I2cWrite (address w) h2 1 True,
                 I2cWrite (address w) l1 1 True, I2cWrite (address w) l2 1 True]
     \<and> enable_bit h1 \<and> \<not> enable_bit h2 \<and> enable_bit l1 \<and> \<not> enable_bit l2
     \<and> high_nibble h1 = high_nibble v \<and> high_nibble h2 = high_nibble v
     \<and> high_nibble l1 = high_nibble (push_bit 4 v)
     \<and> high_nibble l2 = high_nibble (push_bit 4 v)
     \<and> rs_bit h1 \<and> rs_bit h2 \<and> rs_bit l1 \<and> rs_bit l2"
proof (intro exI conjI)
  let ?h = "(v AND 0xF0) OR 0x01" and ?l = "(push_bit 4 v AND 0xF0) OR 0x01"
  show "bus (sendData v w) = bus w @
      [I2cWrite (address w) (?h OR 0x08 OR 0x04) 1 True,
       I2cWrite (address w) ((?h AND NOT 0x04) OR 0x08) 1 True,
       I2cWrite (address w) (?l OR 0x08 OR 0x04) 1 True,
       I2cWrite (address w) ((?l AND NOT 0x04) OR 0x08) 1 True]"
    by (simp add: bus_sendData data_events_def frame_writes_def)
qed (simp_all only: enable_asserted enable_deasserted high_nibble_asserted
      high_nibble_deasserted high_nibble_masked_data rs_asserted rs_deasserted
      rs_data not_False_eq_True)

text \<open>
  C7. For each of the 256 bytes \<open>v\<close>, the two frames \<open>sendCommand v\<close> writes give
  \<open>v\<close> back: the high nibble of the first frame as bits 7 to 4 joined with the high
  nibble of the second frame as bits 3 to 0 is \<open>v\<close>, whether the frames are read while
  enable is set or after it has fallen.
\<close>

theorem sendCommand_roundtrip:
  "\<exists>h1 h2 l1 l2. bus (sendCommand v w) =
        bus w @ [I2cWrite (address w) h1 1 True, I2cWrite (address w) h2 1 True,
                 I2cWrite (address w) l1 1 True, I2cWrite (address w) l2 1 True,
                 SleepMs 2]
     \<and> recombine h1 l1 = v \<and> recombine h2 l2 = v"
proof (intro exI conjI)
  let ?h = "v AND 0xF0" and ?l = "push_bit 4 v AND 0xF0"
  show "bus (sendCommand v w) = bus w @
      [I2cWrite (address w) (?h OR 0x08 OR 0x04) 1 True,
       I2cWrite (address w) ((?h AND NOT 0x04) OR 0x08) 1 True,
       I2cWrite (address w) (?l OR 0x08 OR 0x04) 1 True,
       I2cWrite (address w) ((?l AND NOT 0x04) OR 0x08) 1 True,
       SleepMs 2]"
    by (simp add: bus_sendCommand command_events_def frame_writes_def)
  have "recombine (?h OR 0x08 OR 0x04) (?l OR 0x08 OR 0x04)
      = recombine (high_nibble (?h OR 0x08 OR 0x04)) (high_nibble (?l OR 0x08 OR 0x04))"
    by (simp only: recombine_high_nibbles)
  also have "\<dots> = recombine ?h ?l"
    by (simp only: high_nibble_asserted recombine_high_nibbles)
  finally show "recombine (?h OR 0x08 OR 0x04) (?l OR 0x08 OR 0x04) = v"
    by (simp only: recombine_nibbles)
  have "recombine ((?h AND NOT 0x04) OR 0x08) ((?l AND NOT 0x04) OR 0x08)
      = recombine (high_nibble ((?h AND NOT 0x04) OR 0x08))
          (high_nibble ((?l AND NOT 0x04) OR 0x08))"
    by (simp only: recombine_high_nibbles)
  also have "\<dots> = recombine ?h ?l"
    by (simp only: high_nibble_deasserted recombine_high_nibbles)
  finally show "recombine ((?h AND NOT 0x04) OR 0x08) ((?l AND NOT 0x04) OR 0x08) = v"
    by (simp only: recombine_nibbles)
qed


section \<open>Initialisation\<close>

text \<open>
  C4. \<open>init\<close> first sleeps 15 ms and then issues exactly five commands through
  \<open>sendCommand\<close>, in this order: return home \<open>0x02\<close>, function set \<open>0x28\<close>,
  display control \<open>0x0C\<close>, entry mode \<open>0x06\<close>, clear display \<open>0x01\<close>; on the bus
  each is its two nibble frames followed by the 2 ms sleep.
\<close>

theorem init_sequence:
  "init w = sendCommand 0x01 (sendCommand 0x06 (sendCommand 0x0C (sendCommand 0x28
     (sendCommand 0x02 (sleep_ms 15 w)))))
   \<and> lcd (init w) = lcd w
   \<and> (\<exists>es. bus (init w) = bus w @ SleepMs 15 # es
        \<and> received es =
            [(False, 0x02), (False, 0x28), (False, 0x0C), (False, 0x06), (False, 0x01)]
        \<and> es =
            [I2cWrite (address w) 0x0C 1 True, I2cWrite (address w) 0x08 1 True,
             I2cWrite (address w) 0x2C 1 True, I2cWrite (address w) 0x28 1 True, SleepMs 2,
             I2cWrite (address w) 0x2C 1 True, I2cWrite (address w) 0x28 1 True,
             I2cWrite (address w) 0x8C 1 True, I2cWrite (address w) 0x88 1 True, SleepMs 2,
             I2cWrite (address w) 0x0C 1 True, I2cWrite (address w) 0x08 1 True,
             I2cWrite (address w) 0xCC 1 True, I2cWrite (address w) 0xC8 1 True, SleepMs 2,
             I2cWrite (address w) 0x0C 1 True, I2cWrite (address w) 0x08 1 True,
             I2cWrite (address w) 0x6C 1 True, I2cWrite (address w) 0x68 1 True, SleepMs 2,
             I2cWrite (address w) 0x0C 1 True, I2cWrite (address w) 0x08 1 True,
             I2cWrite (address w) 0x1C 1 True, I2cWrite (address w) 0x18 1 True, SleepMs 2])"
proof (intro conjI)
  let ?es = "concat (map (command_events (address w)) [0x02, 0x28, 0x0C, 0x06, 0x01])"
  show "init w = sendCommand 0x01 (sendCommand 0x06 (sendCommand 0x0C (sendCommand 0x28
     (sendCommand 0x02 (sleep_ms 15 w)))))"
    by (rule init_commands)
  show "lcd (init w) = lcd w" by (rule lcd_init)
  show "\<exists>es. bus (init w) = bus w @ SleepMs 15 # es
        \<and> received es =
            [(False, 0x02), (False, 0x28), (False, 0x0C), (False, 0x06), (False, 0x01)]
        \<and> es =
            [I2cWrite (address w) 0x0C 1 True, I2cWrite (address w) 0x08 1 True,
             I2cWrite (address w) 0x2C 1 True, I2cWrite (address w) 0x28 1 True, SleepMs 2,
             I2cWrite (address w) 0x2C 1 True, I2cWrite (address w) 0x28 1 True,
             I2cWrite (address w) 0x8C 1 True, I2cWrite (address w) 0x88 1 True, SleepMs 2,
             I2cWrite (address w) 0x0C 1 True, I2cWrite (address w) 0x08 1 True,
             I2cWrite (address w) 0xCC 1 True, I2cWrite (address w) 0xC8 1 True, SleepMs 2,
             I2cWrite (address w) 0x0C 1 True, I2cWrite (address w) 0x08 1 True,
             I2cWrite (address w) 0x6C 1 True, I2cWrite (address w) 0x68 1 True, SleepMs 2,
             I2cWrite (address w) 0x0C 1 True, I2cWrite (address w) 0x08 1 True,
             I2cWrite (address w) 0x1C 1 True, I2cWrite (address w) 0x18 1 True, SleepMs 2]"
  proof (intro exI [of _ ?es] conjI)
    show "bus (init w) = bus w @ SleepMs 15 # ?es" by (rule bus_init)
    show "received ?es =
        [(False, 0x02), (False, 0x28), (False, 0x0C), (False, 0x06), (False, 0x01)]"
      using received_commands [of "address w" "[0x02, 0x28, 0x0C, 0x06, 0x01]"]
      by (simp only: list.map)
  qed (simp add: command_events_def frame_writes_def)
qed

section \<open>Cursor\<close>

text \<open>
  C5. For every column \<open>c\<close>, \<open>setCursor 0 c\<close> issues exactly one command, the byte
  \<open>0x08 + c\<close>, and \<open>setCursor 1 c\<close> exactly one command, the byte \<open>0xC0 + c\<close>
  (the sum is made in \<open>int\<close> and passed as a \<open>uint8_t\<close>; for columns from 0 to 247,
  respectively 0 to 63, it is the number \<open>8 + c\<close>, respectively \<open>192 + c\<close>). For
  every row other than 0 and 1, \<open>setCursor\<close> returns having done nothing: no command,
  no error.
\<close>

theorem setCursor_commands:
  "setCursor 0 c w = sendCommand (to_uint8 (0x08 + c)) w
   \<and> setCursor 1 c w = sendCommand (to_uint8 (0xC0 + c)) w
   \<and> (\<exists>es. bus (setCursor 0 c w) = bus w @ es
        \<and> received es = [(False, to_uint8 (0x08 + c))])
   \<and> (\<exists>es. bus (setCursor 1 c w) = bus w @ es
        \<and> received es = [(False, to_uint8 (0xC0 + c))])
   \<and> (c \<le> 247 \<longrightarrow> unat (to_uint8 (0x08 + c)) = 8 + unat c)
   \<and> (c \<le> 63 \<longrightarrow> unat (to_uint8 (0xC0 + c)) = 192 + unat c)
   \<and> (r \<noteq> 0 \<and> r \<noteq> 1 \<longrightarrow> setCursor r c w = w)"
proof (intro conjI impI)
  show "setCursor 0 c w = sendCommand (to_uint8 (0x08 + c)) w" by (rule setCursor_row0)
  show "setCursor 1 c w = sendCommand (to_uint8 (0xC0 + c)) w" by (rule setCursor_row1)
  show "\<exists>es. bus (setCursor 0 c w) = bus w @ es
        \<and> received es = [(False, to_uint8 (0x08 + c))]"
    by (simp add: setCursor_row0 bus_sendCommand received_one_command)
  show "\<exists>es. bus (setCursor 1 c w) = bus w @ es
        \<and> received es = [(False, to_uint8 (0xC0 + c))]"
    by (simp add: setCursor_row1 bus_sendCommand received_one_command)
  show "unat (to_uint8 (0x08 + c)) = 8 + unat c" if "c \<le> 247"
    using that by (rule row0_sum_in_range)
  show "unat (to_uint8 (0xC0 + c)) = 192 + unat c" if "c \<le> 63"
    using that by (rule row1_sum_in_range)
  show "setCursor r c w = w" if "r \<noteq> 0 \<and> r \<noteq> 1"
    using that by (simp add: setCursor_other)
qed

theorem setCursor_commands_witness:
  "setCursor 0 5 (lcd_at 0x27) = sendCommand 0x0D (lcd_at 0x27)
   \<and> setCursor 1 5 (lcd_at 0x27) = sendCommand 0xC5 (lcd_at 0x27)
   \<and> (5 :: c_int) \<le> 247 \<and> unat (to_uint8 (0x08 + 5)) = 8 + unat (5 :: c_int)
   \<and> (5 :: c_int) \<le> 63 \<and> unat (to_uint8 (0xC0 + 5)) = 192 + unat (5 :: c_int)
   \<and> (2 :: c_int) \<noteq> 0 \<and> (2 :: c_int) \<noteq> 1
   \<and> setCursor 2 5 (lcd_at 0x27) = lcd_at 0x27"
  using setCursor_commands [of 5 "lcd_at 0x27" 2]
  by (simp add: to_uint8_numeral)

text \<open>
  C8, as amended. For row 1 and every column from 0 to 63, the one command byte
  \<open>setCursor\<close> issues has bit 7 set: it is a set-DDRAM-address instruction. (On
  \<open>c_int\<close> the order \<open><\<close> is the unsigned one: \<open>c < 64\<close> is \<open>0 \<le> c < 64\<close> for
  the \<open>int\<close> column.)
\<close>

theorem setCursor_row1_high_bit:
  "c < 64 \<Longrightarrow>
     \<exists>es. bus (setCursor 1 c w) = bus w @ es
        \<and> received es = [(False, to_uint8 (0xC0 + c))]
        \<and> bit (to_uint8 (0xC0 + c)) 7"
  by (intro exI [of _ "command_events (address w) (to_uint8 (0xC0 + c))"] conjI)
    (simp_all add: setCursor_row1 bus_sendCommand received_one_command row1_sum_bit7)

theorem setCursor_row1_high_bit_witness:
  "(39 :: c_int) < 64
   \<and> received (bus (setCursor 1 39 (lcd_at 0x27))) = [(False, 0xE7)]
   \<and> bit (0xE7 :: uint8_t) 7"
  using setCursor_row1_high_bit [of 39 "lcd_at 0x27"]
  by (auto simp add: to_uint8_numeral lcd_at_def)

text \<open>
  C8 as stated fails. In row 1 at column 64 the sum \<open>0xC0 + 64\<close> is \<open>0x100\<close>, the
  byte passed to \<open>sendCommand\<close> is \<open>0x00\<close>, and its bit 7 is clear.
\<close>

theorem setCursor_row1_column64:
  "setCursor 1 64 (lcd_at 0x27) = sendCommand 0x00 (lcd_at 0x27)
   \<and> received (bus (setCursor 1 64 (lcd_at 0x27))) = [(False, 0x00)]
   \<and> \<not> bit (0x00 :: uint8_t) 7"
  by (simp add: setCursor_row1 bus_sendCommand received_one_command lcd_at_def
      to_uint8_0x100)

text \<open>
  In row 0 the base is \<open>ROW_1 = 0x08\<close>, whose bit 7 is clear: at column 0 the command
  byte is \<open>0x08\<close>.
\<close>

lemma setCursor_row0_column0:
  "setCursor 0 0 (lcd_at 0x27) = sendCommand 0x08 (lcd_at 0x27)
   \<and> received (bus (setCursor 0 0 (lcd_at 0x27))) = [(False, 0x08)]
   \<and> \<not> bit (0x08 :: uint8_t) 7"
  by (simp add: setCursor_row0 bus_sendCommand received_one_command lcd_at_def
      to_uint8_numeral)

section \<open>Printing\<close>

text \<open>
  C6. For every string \<open>s\<close> (bytes other than zero, then the terminating zero byte),
  \<open>print\<close> returns, having called \<open>sendData\<close> once for each character of \<open>s\<close>, in
  the order of the string, with that character's byte: the bus carries four writes for
  each character and no sleep, and decoding them gives back the characters of \<open>s\<close> as
  data bytes. In particular \<open>print("AB")\<close> writes exactly four data frames: the high then
  the low nibble of \<open>0x41\<close>, then the high then the low nibble of \<open>0x42\<close>.
\<close>

theorem print_sends_each_character:
  "0 \<notin> set s \<Longrightarrow>
     print (s @ 0 # rest) w = Some (fold sendData s w)
     \<and> lcd (fold sendData s w) = lcd w
     \<and> (\<exists>es. bus (fold sendData s w) = bus w @ es
          \<and> received es = map (Pair True) s
          \<and> length es = 4 * length s)
     \<and> (\<exists>w'. print (string_literal ''AB'') w = Some w'
          \<and> bus w' = bus w @
              [I2cWrite (address w) 0x4D 1 True, I2cWrite (address w) 0x49 1 True,
               I2cWrite (address w) 0x1D 1 True, I2cWrite (address w) 0x19 1 True,
               I2cWrite (address w) 0x4D 1 True, I2cWrite (address w) 0x49 1 True,
               I2cWrite (address w) 0x2D 1 True, I2cWrite (address w) 0x29 1 True])"
proof (intro conjI)
  assume s: "0 \<notin> set s"
  show "print (s @ 0 # rest) w = Some (fold sendData s w)"
    using s by (rule print_terminated)
  show "lcd (fold sendData s w) = lcd w" by (rule lcd_fold_sendData)
  show "\<exists>es. bus (fold sendData s w) = bus w @ es
          \<and> received es = map (Pair True) s \<and> length es = 4 * length s"
    by (intro exI [of _ "concat (map (data_events (address w)) s)"] conjI
        bus_fold_sendData received_datas length_data_events)
  have "print (string_literal ''AB'') w = Some (sendData 0x42 (sendData 0x41 w))"
    by (simp add: string_literal_def)
  moreover have "bus (sendData 0x42 (sendData 0x41 w)) = bus w @
              [I2cWrite (address w) 0x4D 1 True, I2cWrite (address w) 0x49 1 True,
               I2cWrite (address w) 0x1D 1 True, I2cWrite (address w) 0x19 1 True,
               I2cWrite (address w) 0x4D 1 True, I2cWrite (address w) 0x49 1 True,
               I2cWrite (address w) 0x2D 1 True, I2cWrite (address w) 0x29 1 True]"
    by (simp add: bus_sendData lcd_sendData data_events_def frame_writes_def)
  ultimately show "\<exists>w'. print (string_literal ''AB'') w = Some w'
          \<and> bus w' = bus w @
              [I2cWrite (address w) 0x4D 1 True, I2cWrite (address w) 0x49 1 True,
               I2cWrite (address w) 0x1D 1 True, I2cWrite (address w) 0x19 1 True,
               I2cWrite (address w) 0x4D 1 True, I2cWrite (address w) 0x49 1 True,
               I2cWrite (address w) 0x2D 1 True, I2cWrite (address w) 0x29 1 True]"
    by simp
qed

theorem print_sends_each_character_witness:
  "0 \<notin> set [0x41, 0x42 :: uint8_t]
   \<and> print [0x41, 0x42, 0] (lcd_at 0x27)
       = Some (sendData 0x42 (sendData 0x41 (lcd_at 0x27)))
   \<and> received (bus (sendData 0x42 (sendData 0x41 (lcd_at 0x27))))
       = [(True, 0x41), (True, 0x42)]"
  using print_sends_each_character [of "[0x41, 0x42]" "[]" "lcd_at 0x27"]
  by (auto simp add: lcd_at_def)

text \<open>
  C10. \<open>print\<close> of the empty string (the first byte read is the terminator) returns the
  world it was given: no bus write, no sleep, the driver as it was.
\<close>

theorem print_empty_string:
  "print (0 # rest) w = Some w \<and> print (string_literal '''') w = Some w"
  by (simp add: string_literal_def)

section \<open>Clearing\<close>

text \<open>
  C9. Two calls of \<open>clear\<close> in a row put the same events on the bus twice, each time
  the two nibble frames of \<open>0x01\<close> with register select cleared and then the 2 ms
  sleep, and leave the driver's state as it was before them.
\<close>

theorem clear_twice:
  "\<exists>es. bus (clear w) = bus w @ es
      \<and> bus (clear (clear w)) = bus w @ es @ es
      \<and> es = [I2cWrite (address w) 0x0C 1 True, I2cWrite (address w) 0x08 1 True,
              I2cWrite (address w) 0x1C 1 True, I2cWrite (address w) 0x18 1 True,
              SleepMs 2]
      \<and> received es = [(False, 0x01)]
      \<and> lcd (clear w) = lcd w
      \<and> lcd (clear (clear w)) = lcd w"
proof (intro exI [of _ "command_events (address w) 0x01"] conjI)
  show "command_events (address w) 0x01 =
      [I2cWrite (address w) 0x0C 1 True, I2cWrite (address w) 0x08 1 True,
       I2cWrite (address w) 0x1C 1 True, I2cWrite (address w) 0x18 1 True, SleepMs 2]"
    by (simp add: command_events_def frame_writes_def)
qed (simp_all add: clear_command bus_sendCommand lcd_sendCommand received_one_command)

end
